theory Spec2Isabelle
  imports Main "HOL-Library.Word"
begin

section \<open>JavaScript values and strings\<close>

text \<open>
  A JavaScript string is a sequence of UTF-16 code units, and \<open>length\<close>, \<open>charAt\<close>,
  \<open>substring\<close> and a regular expression without the \<open>u\<close> flag all work on code units.
  A string of the model is therefore a list of 16-bit words. \<open>js\<close> turns an ASCII literal
  into such a string.
\<close>

type_synonym code_unit = "16 word"
type_synonym jsstring = "code_unit list"

abbreviation js :: "string \<Rightarrow> jsstring" where
  "js s \<equiv> map of_char s"

text \<open>
  The values a form field or a config code can hold: absent (\<open>undefined\<close>), \<open>null\<close>,
  a string, or an integral Number. Numbers are modelled as mathematical integers, which is
  what the Number type holds exactly for magnitudes below \<open>2 ^ 53\<close>; theorems that depend
  on a number's value carry that bound.
\<close>

datatype jsval = JUndefined | JNull | JStr jsstring | JNum int

datatype error = TypeError | Error jsstring

subsection \<open>White space, trim, digits\<close>

text \<open>
  The code units that \<open>String.prototype.trim\<close> strips and that \<open>\s\<close> matches
  (WhiteSpace and LineTerminator of ECMAScript).
\<close>

definition isWhiteSpace :: "code_unit \<Rightarrow> bool" where
  "isWhiteSpace c =
     ((0x0009 \<le> c \<and> c \<le> 0x000D) \<or> c = 0x0020 \<or> c = 0x00A0 \<or> c = 0x1680
      \<or> (0x2000 \<le> c \<and> c \<le> 0x200A) \<or> c = 0x2028 \<or> c = 0x2029 \<or> c = 0x202F
      \<or> c = 0x205F \<or> c = 0x3000 \<or> c = 0xFEFF)"

definition trim :: "jsstring \<Rightarrow> jsstring" where
  "trim s = rev (dropWhile isWhiteSpace (rev (dropWhile isWhiteSpace s)))"

text \<open>\<open>\d\<close> is \<open>[0-9]\<close>.\<close>

definition isDigit :: "code_unit \<Rightarrow> bool" where
  "isDigit c = (0x30 \<le> c \<and> c \<le> 0x39)"

definition digitChar :: "nat \<Rightarrow> code_unit" where
  "digitChar d = of_nat (48 + d)"

definition digitVal :: "code_unit \<Rightarrow> nat" where
  "digitVal c = unat c - 48"

text \<open>\<open>Number.prototype.toString\<close> on an integer: decimal digits, a minus sign first.\<close>

fun digits :: "nat \<Rightarrow> jsstring" where
  "digits n = (if n < 10 then [digitChar n] else digits (n div 10) @ [digitChar (n mod 10)])"

declare digits.simps [simp del]

definition numToString :: "int \<Rightarrow> jsstring" where
  "numToString n = (if n < 0 then 0x2D # digits (nat (- n)) else digits (nat n))"

text \<open>
  \<open>parseInt(s, 10)\<close>: leading white space is skipped, a sign is read, then the longest
  run of decimal digits; \<open>None\<close> is NaN (no digit).
\<close>

definition digitsValue :: "jsstring \<Rightarrow> nat" where
  "digitsValue ds = foldl (\<lambda>acc c. acc * 10 + digitVal c) 0 ds"

definition parseDigits :: "jsstring \<Rightarrow> nat option" where
  "parseDigits s =
     (let ds = takeWhile isDigit s in if ds = [] then None else Some (digitsValue ds))"

definition parseInt :: "jsstring \<Rightarrow> int option" where
  "parseInt s =
     (case dropWhile isWhiteSpace s of
        [] \<Rightarrow> None
      | c # r \<Rightarrow>
          if c = 0x2D then map_option (\<lambda>n. - int n) (parseDigits r)
          else if c = 0x2B then map_option int (parseDigits r)
          else map_option int (parseDigits (c # r)))"

subsection \<open>Conversions\<close>

text \<open>Truthiness, as \<open>value && ...\<close> and \<open>x ? a : b\<close> test it.\<close>

fun truthy :: "jsval \<Rightarrow> bool" where
  "truthy JUndefined = False"
| "truthy JNull = False"
| "truthy (JStr s) = (s \<noteq> [])"
| "truthy (JNum n) = (n \<noteq> 0)"

text \<open>\<open>value.toString()\<close>: a TypeError on \<open>null\<close> and \<open>undefined\<close>.\<close>

fun toString :: "jsval \<Rightarrow> error + jsstring" where
  "toString JUndefined = Inl TypeError"
| "toString JNull = Inl TypeError"
| "toString (JStr s) = Inr s"
| "toString (JNum n) = Inr (numToString n)"

text \<open>The conversion a template literal applies to a substituted value.\<close>

fun render :: "jsval \<Rightarrow> jsstring" where
  "render JUndefined = js ''undefined''"
| "render JNull = js ''null''"
| "render (JStr s) = s"
| "render (JNum n) = numToString n"

text \<open>
  What the code takes from the JavaScript platform and the source does not define:
  the case mappings of \<open>String.prototype\<close>, the text a template literal gives for a
  member inherited from \<open>Object.prototype\<close> (named by its key), and the grouping
  separator of the \<open>de-CH\<close> number format.
\<close>

record platform =
  toLowerCase :: "jsstring \<Rightarrow> jsstring"
  toUpperCase :: "jsstring \<Rightarrow> jsstring"
  inheritedToString :: "jsstring \<Rightarrow> jsstring"
  groupingSeparator :: code_unit

section \<open>Product code generator (productCode.js)\<close>

record formData =
  auftragsnummer :: jsval
  kunde :: jsval
  auftragsposition :: jsval
  maschine :: jsval
  auflage :: jsval
  produkt :: jsval
  papierart :: jsval
  papiername :: jsval

text \<open>
  The config is read from local storage or from an imported JSON file, so its lists can
  hold anything JSON can. An object in a list is given by what its properties \<open>name\<close>,
  \<open>code\<close> and \<open>type\<close> read as (\<open>JUndefined\<close> for a property it does not have).
  An element of a list is \<open>null\<close>, \<open>undefined\<close> or a hole (\<open>NullElement\<close>), or a
  boolean, number or string (\<open>PrimitiveElement\<close>, with its truthiness; its \<open>code\<close>
  reads as \<open>undefined\<close>), or an object. A property \<open>machines\<close>, \<open>products\<close> or
  \<open>papers\<close> is missing, \<open>undefined\<close> or \<open>null\<close> (\<open>Absent\<close>), or an array, or
  some other value (\<open>NotArray\<close>), which has no \<open>find\<close> method. A \<open>code\<close> is
  a value of the kinds a form field has.
\<close>

record config_entry =
  name :: jsval
  code :: jsval
  ptype :: jsval

datatype array_element = NullElement | PrimitiveElement bool | ObjectElement config_entry

datatype config_property = Absent | NotArray | ArrayOf "array_element list"

text \<open>
  A config object. A config that is itself \<open>null\<close> or \<open>undefined\<close> is \<open>None\<close>
  where a function takes a \<open>config option\<close>.
\<close>

record config =
  machines :: config_property
  products :: config_property
  papers :: config_property

datatype field =
  Auftragsnummer | Kunde | Auftragsposition | Maschine | Auflage | Produkt | Papierart
  | Papiername

fun getField :: "formData \<Rightarrow> field \<Rightarrow> jsval" where
  "getField fd Auftragsnummer = auftragsnummer fd"
| "getField fd Kunde = kunde fd"
| "getField fd Auftragsposition = auftragsposition fd"
| "getField fd Maschine = maschine fd"
| "getField fd Auflage = auflage fd"
| "getField fd Produkt = produkt fd"
| "getField fd Papierart = papierart fd"
| "getField fd Papiername = papiername fd"

definition requiredFields :: "field list" where
  "requiredFields =
     [Auftragsnummer, Kunde, Auftragsposition, Maschine, Auflage, Produkt, Papierart,
      Papiername]"

text \<open>
  \<open>validateInput\<close>: every required field is truthy and its \<open>toString().trim()\<close> is not
  empty. \<open>toString\<close> is only reached for a truthy value and cannot fail there.
\<close>

definition fieldPresent :: "jsval \<Rightarrow> bool" where
  "fieldPresent v =
     (truthy v \<and> (case toString v of Inl e \<Rightarrow> False | Inr s \<Rightarrow> trim s \<noteq> []))"

definition validateInput :: "formData \<Rightarrow> bool" where
  "validateInput fd = list_all (\<lambda>f. fieldPresent (getField fd f)) requiredFields"

subsection \<open>Lookups\<close>

text \<open>An exception is the \<open>Inl\<close> of a sum; \<open>bindE\<close> passes the first one on.\<close>

definition bindE :: "error + 'a \<Rightarrow> ('a \<Rightarrow> error + 'b) \<Rightarrow> error + 'b" where
  "bindE m f = (case m of Inl e \<Rightarrow> Inl e | Inr x \<Rightarrow> f x)"

text \<open>\<open>m.code\<close>: a TypeError on \<open>null\<close> and \<open>undefined\<close>.\<close>

fun elementCode :: "array_element \<Rightarrow> error + jsval" where
  "elementCode NullElement = Inl TypeError"
| "elementCode (PrimitiveElement t) = Inr JUndefined"
| "elementCode (ObjectElement e) = Inr (code e)"

fun elementTruthy :: "array_element \<Rightarrow> bool" where
  "elementTruthy NullElement = False"
| "elementTruthy (PrimitiveElement t) = t"
| "elementTruthy (ObjectElement e) = True"

text \<open>
  \<open>find(m => m.code === value)\<close>: the elements are tested in order up to the first
  match, and an exception of the test ends the search.
\<close>

fun findByCode :: "array_element list \<Rightarrow> jsval \<Rightarrow> error + array_element option" where
  "findByCode [] v = Inr None"
| "findByCode (m # ms) v =
     bindE (elementCode m) (\<lambda>c. if c = v then Inr (Some m) else findByCode ms v)"

text \<open>
  \<open>config.machines?.find(m => m.code === machineValue)\<close>, then
  \<open>machine ? machine.code : machineValue\<close>. Reading a property of a \<open>null\<close> config
  is a TypeError, and so is calling \<open>find\<close> on a value that is not an array.
\<close>

definition lookupCode :: "config_property \<Rightarrow> jsval \<Rightarrow> error + jsval" where
  "lookupCode entries v =
     (case entries of
        Absent \<Rightarrow> Inr v
      | NotArray \<Rightarrow> Inl TypeError
      | ArrayOf ms \<Rightarrow>
          bindE (findByCode ms v) (\<lambda>found.
            case found of
              None \<Rightarrow> Inr v
            | Some m \<Rightarrow> if elementTruthy m then elementCode m else Inr v))"

definition getMachineCode :: "jsval \<Rightarrow> config option \<Rightarrow> error + jsval" where
  "getMachineCode machineValue cfg =
     (case cfg of None \<Rightarrow> Inl TypeError | Some c \<Rightarrow> lookupCode (machines c) machineValue)"

definition getProductCode :: "jsval \<Rightarrow> config option \<Rightarrow> error + jsval" where
  "getProductCode productValue cfg =
     (case cfg of None \<Rightarrow> Inl TypeError | Some c \<Rightarrow> lookupCode (products c) productValue)"

definition getPaperCode :: "jsval \<Rightarrow> config option \<Rightarrow> error + jsval" where
  "getPaperCode paperValue cfg =
     (case cfg of None \<Rightarrow> Inl TypeError | Some c \<Rightarrow> lookupCode (papers c) paperValue)"

subsection \<open>Paper type tag\<close>

text \<open>
  \<open>typeMap\<close> is an object literal, so \<open>typeMap[papierart]\<close> finds the two own keys and
  also every member that a plain object inherits from \<open>Object.prototype\<close>; each of
  those is a function or an object, hence truthy, and is what the \<open>||\<close> returns.
\<close>

definition objectPrototypeKeys :: "jsstring list" where
  "objectPrototypeKeys =
     [js ''constructor'', js ''hasOwnProperty'', js ''isPrototypeOf'',
      js ''propertyIsEnumerable'', js ''toLocaleString'', js ''toString'', js ''valueOf'',
      js ''__proto__'', js ''__defineGetter__'', js ''__defineSetter__'',
      js ''__lookupGetter__'', js ''__lookupSetter__'']"

datatype lookup_result = Code jsstring | Inherited jsstring

definition charAt0 :: "jsstring \<Rightarrow> jsstring" where
  "charAt0 s = take 1 s"

definition getPaperTypeCode :: "platform \<Rightarrow> jsval \<Rightarrow> error + lookup_result" where
  "getPaperTypeCode P papierartValue =
     (let key = render papierartValue in
      if key = js ''gestrichen'' then Inr (Code (js ''g_s''))
      else if key = js ''ungestrichen'' then Inr (Code (js ''u_s''))
      else if List.member objectPrototypeKeys key then Inr (Inherited key)
      else (case papierartValue of
              JStr s \<Rightarrow> Inr (Code (toLowerCase P (charAt0 s) @ js ''_s''))
            | _ \<Rightarrow> Inl TypeError))"

fun renderLookup :: "platform \<Rightarrow> lookup_result \<Rightarrow> jsstring" where
  "renderLookup P (Code s) = s"
| "renderLookup P (Inherited k) = inheritedToString P k"

subsection \<open>sanitizeText\<close>

text \<open>The class \<open>[a-zA-Z0-9\<auml>\<ouml>\<uuml>\<Auml>\<Ouml>\<Uuml>\<ssharp>\-_]\<close>, by code unit.\<close>

definition isAllowedChar :: "code_unit \<Rightarrow> bool" where
  "isAllowedChar c =
     ((0x61 \<le> c \<and> c \<le> 0x7A) \<or> (0x41 \<le> c \<and> c \<le> 0x5A) \<or> (0x30 \<le> c \<and> c \<le> 0x39)
      \<or> c = 0xE4 \<or> c = 0xF6 \<or> c = 0xFC \<or> c = 0xC4 \<or> c = 0xD6 \<or> c = 0xDC \<or> c = 0xDF
      \<or> c = 0x2D \<or> c = 0x5F)"

text \<open>\<open>replace(/\s+/g, '-')\<close>: every maximal run of white space becomes one hyphen.\<close>

function replaceSpaceRuns :: "jsstring \<Rightarrow> jsstring" where
  "replaceSpaceRuns [] = []"
| "replaceSpaceRuns (c # cs) =
     (if isWhiteSpace c then 0x2D # replaceSpaceRuns (dropWhile isWhiteSpace cs)
      else c # replaceSpaceRuns cs)"
  by pat_completeness auto
termination
  by (relation "measure length") (auto simp: length_dropWhile_le less_Suc_eq_le)

definition sanitizeText :: "jsval \<Rightarrow> error + jsstring" where
  "sanitizeText text =
     (case text of
        JStr s \<Rightarrow> Inr (take 20 (replaceSpaceRuns (filter isAllowedChar (trim s))))
      | _ \<Rightarrow> Inl TypeError)"

subsection \<open>The five parts\<close>

text \<open>\<open>s.trim()\<close> on a field: only a string has the method.\<close>

fun trimMethod :: "jsval \<Rightarrow> error + jsstring" where
  "trimMethod (JStr s) = Inr (trim s)"
| "trimMethod v = Inl TypeError"

definition startsWith :: "jsstring \<Rightarrow> jsstring \<Rightarrow> bool" where
  "startsWith s p = (take (length p) s = p)"

definition buildAuftragsTeil :: "formData \<Rightarrow> error + jsstring" where
  "buildAuftragsTeil fd =
     bindE (trimMethod (auftragsnummer fd)) (\<lambda>nr.
     bindE (toString (auftragsposition fd)) (\<lambda>p.
       let position = trim p;
           cleanAuftrag = (if startsWith nr (js ''A'') then nr else js ''A'' @ nr)
       in Inr (cleanAuftrag @ js ''-'' @ position)))"

definition buildKundenTeil :: "formData \<Rightarrow> config option \<Rightarrow> error + jsstring" where
  "buildKundenTeil fd cfg =
     bindE (sanitizeText (kunde fd)) (\<lambda>k.
     bindE (getProductCode (produkt fd) cfg) (\<lambda>produktCode.
       Inr (k @ js ''-'' @ render produktCode)))"

definition buildMaschineTeil :: "platform \<Rightarrow> formData \<Rightarrow> config option \<Rightarrow> error + jsstring"
  where
  "buildMaschineTeil P fd cfg =
     bindE (getMachineCode (maschine fd) cfg) (\<lambda>maschinenCode.
     bindE (getPaperTypeCode P (papierart fd)) (\<lambda>papierartCode.
     bindE (getPaperCode (papiername fd) cfg) (\<lambda>papiernameCode.
       Inr (render maschinenCode @ js ''_'' @ renderLookup P papierartCode @ js ''_''
            @ render papiernameCode))))"

text \<open>
  \<open>replace(/'/g, '').replace(/\s/g, '')\<close>, \<open>parseInt\<close>, and the
  \<open>Error\<close> thrown on NaN.
\<close>

definition removeApostrophes :: "jsstring \<Rightarrow> jsstring" where
  "removeApostrophes s = filter (\<lambda>c. c \<noteq> 0x27) s"

definition removeWhiteSpace :: "jsstring \<Rightarrow> jsstring" where
  "removeWhiteSpace s = filter (\<lambda>c. \<not> isWhiteSpace c) s"

definition invalidAuflage :: jsstring where
  "invalidAuflage = js ''Ung'' @ [0xFC] @ js ''ltige Auflage''"

definition buildAuflageTeil :: "formData \<Rightarrow> error + jsstring" where
  "buildAuflageTeil fd =
     bindE (toString (auflage fd)) (\<lambda>a.
       let auflageStr = removeWhiteSpace (removeApostrophes a) in
       case parseInt auflageStr of
         None \<Rightarrow> Inl (Error invalidAuflage)
       | Some auflageNum \<Rightarrow> Inr (numToString auflageNum))"

definition buildPapierTeil :: "formData \<Rightarrow> config option \<Rightarrow> error + jsstring" where
  "buildPapierTeil fd cfg =
     bindE (getPaperCode (papiername fd) cfg) (\<lambda>papiernameCode.
       Inr (js ''D-'' @ render papiernameCode))"

record code_parts =
  auftragsTeil :: jsstring
  kundenTeil :: jsstring
  maschineTeil :: jsstring
  auflageTeil :: jsstring
  papierTeil :: jsstring

definition buildCodeParts :: "platform \<Rightarrow> formData \<Rightarrow> config option \<Rightarrow> error + code_parts"
  where
  "buildCodeParts P fd cfg =
     bindE (buildAuftragsTeil fd) (\<lambda>p1.
     bindE (buildKundenTeil fd cfg) (\<lambda>p2.
     bindE (buildMaschineTeil P fd cfg) (\<lambda>p3.
     bindE (buildAuflageTeil fd) (\<lambda>p4.
     bindE (buildPapierTeil fd cfg) (\<lambda>p5.
       Inr \<lparr>auftragsTeil = p1, kundenTeil = p2, maschineTeil = p3, auflageTeil = p4,
            papierTeil = p5\<rparr>)))))"

text \<open>\<open>Array.prototype.join\<close>.\<close>

fun join :: "jsstring \<Rightarrow> jsstring list \<Rightarrow> jsstring" where
  "join sep [] = []"
| "join sep [x] = x"
| "join sep (x # y # ys) = x @ sep @ join sep (y # ys)"

definition assembleCode :: "code_parts \<Rightarrow> jsstring" where
  "assembleCode parts =
     join (js ''#'') [auftragsTeil parts, kundenTeil parts, maschineTeil parts, auflageTeil parts,
                papierTeil parts] @ js ''#''"

text \<open>
  \<open>generate\<close>: the body of the \<open>try\<close> is \<open>generateTry\<close>; the \<open>catch\<close> logs
  the exception and turns it into the empty string.
\<close>

definition generateTry :: "platform \<Rightarrow> formData \<Rightarrow> config option \<Rightarrow> error + jsstring" where
  "generateTry P fd cfg =
     (if \<not> validateInput fd then Inr []
      else bindE (buildCodeParts P fd cfg) (\<lambda>parts. Inr (assembleCode parts)))"

definition generate :: "platform \<Rightarrow> formData \<Rightarrow> config option \<Rightarrow> jsstring" where
  "generate P fd cfg = (case generateTry P fd cfg of Inl e \<Rightarrow> [] | Inr s \<Rightarrow> s)"

text \<open>\<open>String.prototype.split\<close> with a one-unit separator, as \<open>parseCode\<close> uses it.\<close>

fun splitAcc :: "code_unit \<Rightarrow> jsstring \<Rightarrow> jsstring \<Rightarrow> jsstring list" where
  "splitAcc sep acc [] = [rev acc]"
| "splitAcc sep acc (c # cs) =
     (if c = sep then rev acc # splitAcc sep [] cs else splitAcc sep (c # acc) cs)"

definition split :: "code_unit \<Rightarrow> jsstring \<Rightarrow> jsstring list" where
  "split sep s = splitAcc sep [] s"

definition segment :: "nat \<Rightarrow> jsstring \<Rightarrow> jsstring option" where
  "segment i s = (let parts = split 0x23 s in if i < length parts then Some (parts ! i) else None)"

section \<open>Swiss number format (helpers.js)\<close>

text \<open>
  \<open>formatSwissNumber\<close> hands the number to \<open>Intl.NumberFormat\<close> for \<open>de-CH\<close> with
  grouping. For a non-negative integer that is its decimal digits, in groups of three
  from the right, with the platform's grouping separator between the groups.
\<close>

fun groupRev :: "code_unit \<Rightarrow> jsstring \<Rightarrow> jsstring" where
  "groupRev sep (a # b # c # d # r) = a # b # c # sep # groupRev sep (d # r)"
| "groupRev sep r = r"

definition formatSwissNumber :: "platform \<Rightarrow> nat \<Rightarrow> jsstring" where
  "formatSwissNumber P n = rev (groupRev (groupingSeparator P) (rev (digits n)))"

text \<open>\<open>replace(/[''\s]/g, '')\<close> and \<open>parseInt(cleaned, 10)\<close>; \<open>None\<close> is NaN.\<close>

definition parseSwissNumber :: "jsstring \<Rightarrow> int option" where
  "parseSwissNumber formattedNumber =
     parseInt (filter (\<lambda>c. \<not> (c = 0x27 \<or> c = 0x27 \<or> isWhiteSpace c)) formattedNumber)"

text \<open>\<open>SWISS_FORMAT.NUMBER_SEPARATOR\<close> of the constants: the ASCII apostrophe.\<close>

definition NUMBER_SEPARATOR :: code_unit where
  "NUMBER_SEPARATOR = 0x27"

section \<open>Validator (ui.js)\<close>

text \<open>
  A result object of the validator. A property that the returned object literal does not
  have is \<open>None\<close>.
\<close>

record fileObject =
  fileName :: jsstring
  fileSize :: nat
  fileType :: jsstring

record result =
  valid :: bool
  resultValue :: "jsval option"
  resultError :: "jsstring option"
  resultCode :: "jsstring option"
  normalizedValue :: "jsstring option"
  numericValue :: "int option"
  formattedValue :: "jsstring option"
  fileInfo :: "fileObject option"

definition emptyResult :: "bool \<Rightarrow> result" where
  "emptyResult v =
     \<lparr>valid = v, resultValue = None, resultError = None, resultCode = None,
      normalizedValue = None, numericValue = None, formattedValue = None, fileInfo = None\<rparr>"

text \<open>\<open>{ valid: false, error: e, code: c }\<close> and \<open>{ valid: true, value: v }\<close>.\<close>

definition failure :: "jsstring \<Rightarrow> jsstring \<Rightarrow> result" where
  "failure e c = (emptyResult False)\<lparr>resultError := Some e, resultCode := Some c\<rparr>"

definition success :: "jsval \<Rightarrow> result" where
  "success v = (emptyResult True)\<lparr>resultValue := Some v\<rparr>"

subsection \<open>The rule table\<close>

record rule =
  required :: bool
  pattern :: "(jsstring \<Rightarrow> bool) option"
  minLength :: "nat option"
  maxLength :: "nat option"
  minValue :: "int option"
  maxValue :: "int option"
  enumValues :: "jsstring list option"
  message :: "jsstring option"

definition emptyRule :: rule where
  "emptyRule =
     \<lparr>required = False, pattern = None, minLength = None, maxLength = None, minValue = None,
      maxValue = None, enumValues = None, message = None\<rparr>"

text \<open>\<open>/^[class]+$/\<close>: a non-empty string of units of the class.\<close>

definition matchesClassPlus :: "(code_unit \<Rightarrow> bool) \<Rightarrow> jsstring \<Rightarrow> bool" where
  "matchesClassPlus cls s = (s \<noteq> [] \<and> list_all cls s)"

definition isUpper :: "code_unit \<Rightarrow> bool" where
  "isUpper c = (0x41 \<le> c \<and> c \<le> 0x5A)"

definition isLower :: "code_unit \<Rightarrow> bool" where
  "isLower c = (0x61 \<le> c \<and> c \<le> 0x7A)"

definition isUmlaut :: "code_unit \<Rightarrow> bool" where
  "isUmlaut c =
     (c = 0xE4 \<or> c = 0xF6 \<or> c = 0xFC \<or> c = 0xC4 \<or> c = 0xD6 \<or> c = 0xDC \<or> c = 0xDF)"

text \<open>\<open>/^A\d+$/\<close>\<close>

definition auftragPattern :: "jsstring \<Rightarrow> bool" where
  "auftragPattern s =
     (case s of [] \<Rightarrow> False | c # ds \<Rightarrow> c = 0x41 \<and> matchesClassPlus isDigit ds)"

text \<open>\<open>/^[a-zA-Z0-9\<auml>\<ouml>\<uuml>\<Auml>\<Ouml>\<Uuml>\<ssharp>\s\-_&.]+$/\<close>\<close>

definition kundePattern :: "jsstring \<Rightarrow> bool" where
  "kundePattern =
     matchesClassPlus (\<lambda>c. isLower c \<or> isUpper c \<or> isDigit c \<or> isUmlaut c \<or> isWhiteSpace c
                          \<or> c = 0x2D \<or> c = 0x5F \<or> c = 0x26 \<or> c = 0x2E)"

text \<open>\<open>/^\d+$/\<close>\<close>

definition positionPattern :: "jsstring \<Rightarrow> bool" where
  "positionPattern = matchesClassPlus isDigit"

text \<open>\<open>/^[\d''\s]+$/\<close>\<close>

definition auflagePattern :: "jsstring \<Rightarrow> bool" where
  "auflagePattern = matchesClassPlus (\<lambda>c. isDigit c \<or> c = 0x27 \<or> c = 0x27 \<or> isWhiteSpace c)"

text \<open>\<open>/^[A-Z0-9_-]+$/\<close>\<close>

definition codePattern :: "jsstring \<Rightarrow> bool" where
  "codePattern = matchesClassPlus (\<lambda>c. isUpper c \<or> isDigit c \<or> c = 0x5F \<or> c = 0x2D)"

text \<open>\<open>/^[A-Za-z0-9_-]+$/\<close>\<close>

definition paperPattern :: "jsstring \<Rightarrow> bool" where
  "paperPattern =
     matchesClassPlus (\<lambda>c. isUpper c \<or> isLower c \<or> isDigit c \<or> c = 0x5F \<or> c = 0x2D)"

text \<open>
  \<open>getValidationRules\<close>, for the eight form fields (the six rules for config elements
  are not used by the functions modelled here).
\<close>

fun getValidationRules :: "field \<Rightarrow> rule" where
  "getValidationRules Auftragsnummer =
     emptyRule\<lparr>required := True, pattern := Some auftragPattern, minLength := Some 2,
       maxLength := Some 20,
       message := Some (js ''Auftragsnummer muss mit '' @ [0x22] @ js ''A'' @ [0x22]
                        @ js '' beginnen und Zahlen enthalten (z.B. A12345)'')\<rparr>"
| "getValidationRules Kunde =
     emptyRule\<lparr>required := True, pattern := Some kundePattern, minLength := Some 1,
       maxLength := Some 50,
       message := Some (js ''Kundenname darf nur Buchstaben, Zahlen und die Zeichen - _ & . enthalten'')\<rparr>"
| "getValidationRules Auftragsposition =
     emptyRule\<lparr>required := True, pattern := Some positionPattern, minValue := Some 0,
       maxValue := Some 999,
       message := Some (js ''Auftragsposition muss eine Zahl zwischen 0 und 999 sein'')\<rparr>"
| "getValidationRules Auflage =
     emptyRule\<lparr>required := True, pattern := Some auflagePattern, minValue := Some 1,
       maxValue := Some 1000000,
       message := Some (js ''Auflage muss eine positive Zahl sein (z.B. 1'' @ [0x27]
                        @ js ''200)'')\<rparr>"
| "getValidationRules Maschine =
     emptyRule\<lparr>required := True, pattern := Some codePattern, minLength := Some 1,
       maxLength := Some 20,
       message := Some (js ''Maschine muss ausgew'' @ [0xE4] @ js ''hlt werden'')\<rparr>"
| "getValidationRules Produkt =
     emptyRule\<lparr>required := True, pattern := Some codePattern, minLength := Some 1,
       maxLength := Some 20,
       message := Some (js ''Produkt muss ausgew'' @ [0xE4] @ js ''hlt werden'')\<rparr>"
| "getValidationRules Papierart =
     emptyRule\<lparr>required := True,
       enumValues := Some [js ''gestrichen'', js ''ungestrichen''],
       message := Some (js ''Papierart muss ausgew'' @ [0xE4] @ js ''hlt werden'')\<rparr>"
| "getValidationRules Papiername =
     emptyRule\<lparr>required := True, pattern := Some paperPattern, minLength := Some 1,
       maxLength := Some 30,
       message := Some (js ''Papiername muss ausgew'' @ [0xE4] @ js ''hlt werden'')\<rparr>"

fun getFieldDisplayName :: "field \<Rightarrow> jsstring" where
  "getFieldDisplayName Auftragsnummer = js ''Auftragsnummer''"
| "getFieldDisplayName Kunde = js ''Kunde''"
| "getFieldDisplayName Auftragsposition = js ''Auftragsposition''"
| "getFieldDisplayName Maschine = js ''Maschine''"
| "getFieldDisplayName Auflage = js ''Auflage''"
| "getFieldDisplayName Produkt = js ''Produkt''"
| "getFieldDisplayName Papierart = js ''Papierart''"
| "getFieldDisplayName Papiername = js ''Papiername''"

text \<open>\<open>isEmpty\<close>: \<open>null\<close>, \<open>undefined\<close>, or a string that trims to nothing.\<close>

fun isEmpty :: "jsval \<Rightarrow> bool" where
  "isEmpty JNull = True"
| "isEmpty JUndefined = True"
| "isEmpty (JStr s) = (trim s = [])"
| "isEmpty (JNum n) = False"

fun normalizeValue :: "platform \<Rightarrow> field \<Rightarrow> jsstring \<Rightarrow> jsstring" where
  "normalizeValue P Kunde v = trim v"
| "normalizeValue P Auftragsnummer v = toUpperCase P v"
| "normalizeValue P Auflage v = v"
| "normalizeValue P f v = trim v"

subsection \<open>Field-specific checks\<close>

definition validateAuftragsnummer :: "jsstring \<Rightarrow> result" where
  "validateAuftragsnummer v =
     (if \<not> startsWith v (js ''A'') then
        failure (js ''Auftragsnummer muss mit '' @ [0x22] @ js ''A'' @ [0x22] @ js '' beginnen'')
                (js ''INVALID_PREFIX'')
      else if \<not> auftragPattern v then
        failure (js ''Auftragsnummer darf nur '' @ [0x22] @ js ''A'' @ [0x22]
                 @ js '' gefolgt von Zahlen enthalten'') (js ''INVALID_FORMAT'')
      else if length v < 2 then
        failure (js ''Auftragsnummer muss mindestens eine Zahl nach '' @ [0x22] @ js ''A''
                 @ [0x22] @ js '' enthalten'') (js ''TOO_SHORT'')
      else success (JStr v))"

text \<open>
  \<open>validateAuflage\<close>. \<open>parseInt\<close> runs on a string that matched \<open>/^\d+$/\<close>; a NaN
  (\<open>None\<close>) would fail neither comparison.
\<close>

definition validateAuflage :: "platform \<Rightarrow> jsstring \<Rightarrow> result" where
  "validateAuflage P v =
     (let cleanValue = filter (\<lambda>c. \<not> (c = 0x27 \<or> c = 0x27 \<or> isWhiteSpace c)) v in
      if \<not> matchesClassPlus isDigit cleanValue then
        failure (js ''Auflage muss eine Zahl sein (z.B. 1'' @ [0x27] @ js ''200 oder 1200)'')
                (js ''NOT_NUMERIC'')
      else
        let numValue = parseInt cleanValue in
        if (case numValue of Some n \<Rightarrow> n < 1 | None \<Rightarrow> False) then
          failure (js ''Auflage muss mindestens 1 sein'') (js ''TOO_SMALL'')
        else if (case numValue of Some n \<Rightarrow> n > 1000000 | None \<Rightarrow> False) then
          failure (js ''Auflage darf maximal 1'' @ [0x27] @ js ''000'' @ [0x27] @ js ''000 sein'')
                  (js ''TOO_LARGE'')
        else
          (success (JStr v))\<lparr>numericValue := numValue,
             formattedValue :=
               Some (case numValue of Some n \<Rightarrow> formatSwissNumber P (nat n)
                     | None \<Rightarrow> js ''NaN'')\<rparr>)"

subsection \<open>validateField\<close>

text \<open>
  \<open>parseFloat\<close> is called in the block of numeric checks only, which the rule table
  reaches for \<open>auftragsposition\<close> alone and after \<open>/^\d+$/\<close> has matched: its argument
  is a non-empty string of digits, and the result that number. On any other string the
  model answers NaN (\<open>None\<close>).
\<close>

definition parseFloatDigits :: "jsstring \<Rightarrow> int option" where
  "parseFloatDigits s =
     (if matchesClassPlus isDigit s then Some (int (digitsValue s)) else None)"

text \<open>The block of numeric checks; \<open>None\<close> when it returns nothing.\<close>

definition numericChecks :: "field \<Rightarrow> rule \<Rightarrow> jsstring \<Rightarrow> result option" where
  "numericChecks fieldName rules stringValue =
     (if (minValue rules \<noteq> None \<or> maxValue rules \<noteq> None) \<and> fieldName \<noteq> Auflage then
        (case parseFloatDigits stringValue of
           None \<Rightarrow>
             Some (failure (getFieldDisplayName fieldName @ js '' muss eine Zahl sein'')
                           (js ''NOT_NUMERIC''))
         | Some numValue \<Rightarrow>
             if (case minValue rules of Some m \<Rightarrow> numValue < m | None \<Rightarrow> False) then
               Some (failure (getFieldDisplayName fieldName @ js '' muss mindestens ''
                              @ numToString (the (minValue rules)) @ js '' sein'')
                             (js ''MIN_VALUE''))
             else if (case maxValue rules of Some m \<Rightarrow> numValue > m | None \<Rightarrow> False) then
               Some (failure (getFieldDisplayName fieldName @ js '' darf maximal ''
                              @ numToString (the (maxValue rules)) @ js '' sein'')
                             (js ''MAX_VALUE''))
             else None)
      else None)"

text \<open>
  \<open>validateField\<close> with no custom rules. A number is not empty and has a
  \<open>toString\<close>; \<open>toString\<close> is reached only for a value that is not empty.
\<close>

definition validateField :: "platform \<Rightarrow> field \<Rightarrow> jsval \<Rightarrow> error + result" where
  "validateField P fieldName v =
     (let rules = getValidationRules fieldName;
          displayName = getFieldDisplayName fieldName
      in
      if required rules \<and> isEmpty v then
        Inr (failure (displayName @ js '' ist erforderlich'') (js ''REQUIRED''))
      else if isEmpty v \<and> \<not> required rules then Inr (success v)
      else
        bindE (toString v) (\<lambda>sv.
          let stringValue = trim sv in
          Inr (
            if (case pattern rules of Some p \<Rightarrow> \<not> p stringValue | None \<Rightarrow> False) then
              failure
                (case message rules of
                   Some m \<Rightarrow>
                     if m \<noteq> [] then m
                     else displayName @ js '' hat ung'' @ [0xFC] @ js ''ltiges Format''
                 | None \<Rightarrow> displayName @ js '' hat ung'' @ [0xFC] @ js ''ltiges Format'')
                (js ''PATTERN'')
            else if (case minLength rules of
                       Some m \<Rightarrow> m \<noteq> 0 \<and> length stringValue < m | None \<Rightarrow> False) then
              failure (displayName @ js '' muss mindestens ''
                       @ numToString (int (the (minLength rules))) @ js '' Zeichen haben'')
                      (js ''MIN_LENGTH'')
            else if (case maxLength rules of
                       Some m \<Rightarrow> m \<noteq> 0 \<and> length stringValue > m | None \<Rightarrow> False) then
              failure (displayName @ js '' darf maximal ''
                       @ numToString (int (the (maxLength rules))) @ js '' Zeichen haben'')
                      (js ''MAX_LENGTH'')
            else
              (case numericChecks fieldName rules stringValue of
                 Some r \<Rightarrow> r
               | None \<Rightarrow>
                   if fieldName = Auflage \<and> \<not> valid (validateAuflage P stringValue) then
                     validateAuflage P stringValue
                   else if (case enumValues rules of
                              Some vs \<Rightarrow> \<not> List.member vs stringValue | None \<Rightarrow> False) then
                     failure (displayName @ js '' muss einer der folgenden Werte sein: ''
                              @ join (js '', '') (the (enumValues rules)))
                             (js ''INVALID_ENUM'')
                   else if fieldName = Auftragsnummer
                           \<and> \<not> valid (validateAuftragsnummer stringValue) then
                     validateAuftragsnummer stringValue
                   else
                     (emptyResult True)\<lparr>resultValue := Some (JStr stringValue),
                        normalizedValue :=
                          Some (normalizeValue P fieldName stringValue)\<rparr>))))"

subsection \<open>validateForm\<close>

record form_error =
  errField :: field
  errError :: "jsstring option"
  errCode :: "jsstring option"

record loop_state =
  results :: "(field \<times> result) list"
  errors :: "form_error list"
  allValid :: bool

text \<open>
  The \<open>forEach\<close> over the required fields, with the three variables it assigns as the
  state. The keys of \<open>results\<close> are distinct, so the object is the list of its entries
  in insertion order.
\<close>

fun validateFields ::
  "platform \<Rightarrow> formData \<Rightarrow> field list \<Rightarrow> loop_state \<Rightarrow> error + loop_state" where
  "validateFields P fd [] st = Inr st"
| "validateFields P fd (f # fs) st =
     bindE (validateField P f (getField fd f)) (\<lambda>r.
       validateFields P fd fs
         \<lparr>results = results st @ [(f, r)],
          errors =
            (if \<not> valid r then
               errors st @ [\<lparr>errField = f, errError = resultError r, errCode = resultCode r\<rparr>]
             else errors st),
          allValid = (if \<not> valid r then False else allValid st)\<rparr>)"

text \<open>\<open>validateCrossFields\<close> has no check yet: its error list stays empty.\<close>

definition validateCrossFields :: "formData \<Rightarrow> bool \<times> form_error list" where
  "validateCrossFields fd = (let errs = [] in (length errs = 0, errs))"

record summary =
  totalFields :: nat
  validFields :: nat
  invalidFields :: int
  errorCount :: nat
  isComplete :: bool

definition generateValidationSummary :: "(field \<times> result) list \<Rightarrow> form_error list \<Rightarrow> summary"
  where
  "generateValidationSummary rs errs =
     (let total = length rs;
          validCount = length (filter (\<lambda>r. valid (snd r)) rs)
      in \<lparr>totalFields = total, validFields = validCount,
          invalidFields = int total - int validCount, errorCount = length errs,
          isComplete = (validCount = total \<and> length errs = 0)\<rparr>)"

record form_result =
  formValid :: bool
  formErrors :: "form_error list"
  formResults :: "(field \<times> result) list"
  formSummary :: summary

definition validateForm :: "platform \<Rightarrow> formData \<Rightarrow> error + form_result" where
  "validateForm P fd =
     bindE (validateFields P fd requiredFields \<lparr>results = [], errors = [], allValid = True\<rparr>)
       (\<lambda>st.
          let crossValidation = validateCrossFields fd;
              allValid' = (if \<not> fst crossValidation then False else allValid st);
              errors' =
                (if \<not> fst crossValidation then errors st @ snd crossValidation
                 else errors st)
          in Inr \<lparr>formValid = allValid', formErrors = errors', formResults = results st,
                  formSummary = generateValidationSummary (results st) errors'\<rparr>)"

subsection \<open>validateFile\<close>

definition endsWith :: "jsstring \<Rightarrow> jsstring \<Rightarrow> bool" where
  "endsWith s p = (length p \<le> length s \<and> drop (length s - length p) s = p)"

text \<open>\<open>/[<>:"/\\|?*\x00-\x1f]/\<close>\<close>

definition isInvalidFileChar :: "code_unit \<Rightarrow> bool" where
  "isInvalidFileChar c =
     (c = 0x3C \<or> c = 0x3E \<or> c = 0x3A \<or> c = 0x22 \<or> c = 0x2F \<or> c = 0x5C \<or> c = 0x7C
      \<or> c = 0x3F \<or> c = 0x2A \<or> c \<le> 0x1F)"

text \<open>
  \<open>/^(CON|PRN|AUX|NUL|COM[1-9]|LPT[1-9])(\.|$)/i\<close>. Without the \<open>u\<close> flag the
  \<open>i\<close> flag compares upper-cased units and never lets a unit outside ASCII match an
  ASCII one, so for these letters it is the ASCII case folding.
\<close>

definition asciiUpper :: "code_unit \<Rightarrow> code_unit" where
  "asciiUpper c = (if isLower c then c - 0x20 else c)"

definition dotOrEnd :: "jsstring \<Rightarrow> bool" where
  "dotOrEnd r = (case r of [] \<Rightarrow> True | c # cs \<Rightarrow> c = 0x2E)"

definition isReservedName :: "jsstring \<Rightarrow> bool" where
  "isReservedName fname =
     (let u = map asciiUpper fname in
      (List.member [js ''CON'', js ''PRN'', js ''AUX'', js ''NUL''] (take 3 u)
         \<and> dotOrEnd (drop 3 u))
      \<or> (List.member [js ''COM'', js ''LPT''] (take 3 u)
          \<and> (case drop 3 u of [] \<Rightarrow> False
              | c # r \<Rightarrow> 0x31 \<le> c \<and> c \<le> 0x39 \<and> dotOrEnd r)))"

definition validateFileName :: "jsstring \<Rightarrow> result" where
  "validateFileName fname =
     (if list_ex isInvalidFileChar fname then
        failure (js ''Dateiname enth'' @ [0xE4] @ js ''lt ung'' @ [0xFC] @ js ''ltige Zeichen'')
                (js ''INVALID_CHARACTERS'')
      else if isReservedName fname then
        failure (js ''Dateiname ist ein reservierter Name'') (js ''RESERVED_NAME'')
      else if length fname > 255 then
        failure (js ''Dateiname ist zu lang (max. 255 Zeichen)'') (js ''TOO_LONG'')
      else success (JStr fname))"

definition maxSize :: nat where
  "maxSize = 100 * 1024 * 1024"

text \<open>
  \<open>formatFileSize(maxSize)\<close>: for this one argument the division by \<open>1024\<close> squared
  is exact and the text is \<open>100 MB\<close>.
\<close>

definition formatFileSize_maxSize :: jsstring where
  "formatFileSize_maxSize = js ''100 MB''"

text \<open>\<open>validateFile\<close>; \<open>None\<close> is a falsy argument (no file).\<close>

definition validateFile :: "platform \<Rightarrow> fileObject option \<Rightarrow> result" where
  "validateFile P fileArg =
     (case fileArg of
        None \<Rightarrow> failure (js ''Keine Datei ausgew'' @ [0xE4] @ js ''hlt'') (js ''NO_FILE'')
      | Some f \<Rightarrow>
          if fileSize f > maxSize then
            failure (js ''Datei zu gross. Maximum: '' @ formatFileSize_maxSize)
                    (js ''FILE_TOO_LARGE'')
          else if fileSize f = 0 then failure (js ''Datei ist leer'') (js ''EMPTY_FILE'')
          else if \<not> List.member [js ''application/pdf''] (fileType f) then
            failure (js ''Nur PDF-Dateien sind erlaubt'') (js ''INVALID_FILE_TYPE'')
          else if \<not> endsWith (toLowerCase P (fileName f)) (js ''.pdf'') then
            failure (js ''Datei muss die Endung .pdf haben'') (js ''INVALID_FILE_EXTENSION'')
          else if \<not> valid (validateFileName (fileName f)) then validateFileName (fileName f)
          else (emptyResult True)\<lparr>fileInfo :=
                 Some \<lparr>fileName = fileName f, fileSize = fileSize f, fileType = fileType f\<rparr>\<rparr>)"

section \<open>Example inputs\<close>

text \<open>The form data of the worked example, and the config of \<open>generateExample\<close>.\<close>

definition workedExample :: formData where
  "workedExample =
     \<lparr>auftragsnummer = JStr (js ''A12345''), kunde = JStr (js ''TestKunde''),
      auftragsposition = JStr (js ''1''), maschine = JStr (js ''CX75''),
      auflage = JStr (js ''1'' @ [0x27] @ js ''200''), produkt = JStr (js ''BRFPP''),
      papierart = JStr (js ''ungestrichen''), papiername = JStr (js ''NoSat170'')\<rparr>"

text \<open>
  The worked example with the quantity as \<open>de-CH\<close> formatting with U+2019 gives it.
\<close>

definition typographicExample :: formData where
  "typographicExample = workedExample\<lparr>auflage := JStr (js ''1'' @ [0x2019] @ js ''200'')\<rparr>"

text \<open>The worked example with a \<open>#\<close> in the product.\<close>

definition hashExample :: formData where
  "hashExample = workedExample\<lparr>produkt := JStr (js ''BR#PP'')\<rparr>"

definition exampleConfig :: config where
  "exampleConfig =
     \<lparr>machines =
        ArrayOf [ObjectElement \<lparr>name = JStr (js ''CX75''), code = JStr (js ''CX75''),
                                ptype = JUndefined\<rparr>],
      products =
        ArrayOf [ObjectElement \<lparr>name = JStr (js ''Brosch'' @ [0xFC] @ js ''re''),
                                code = JStr (js ''BRFPP''), ptype = JUndefined\<rparr>],
      papers =
        ArrayOf [ObjectElement \<lparr>name = JStr (js ''NoSat170''), code = JStr (js ''NoSat170''),
                                ptype = JStr (js ''ungestrichen'')\<rparr>]\<rparr>"

text \<open>A config whose list of machines holds a \<open>null\<close>, and one where it is an object.\<close>

definition nullEntryConfig :: config where
  "nullEntryConfig = exampleConfig\<lparr>machines := ArrayOf [NullElement]\<rparr>"

definition notArrayConfig :: config where
  "notArrayConfig = exampleConfig\<lparr>machines := NotArray\<rparr>"

text \<open>
  A list of the config is well formed when it is absent or an array with no element that
  is \<open>null\<close> or \<open>undefined\<close>; a config is when its three lists are.
\<close>

definition wellFormedProperty :: "config_property \<Rightarrow> bool" where
  "wellFormedProperty p =
     (case p of
        Absent \<Rightarrow> True
      | NotArray \<Rightarrow> False
      | ArrayOf ms \<Rightarrow> list_all (\<lambda>m. m \<noteq> NullElement) ms)"

definition wellFormedConfig :: "config \<Rightarrow> bool" where
  "wellFormedConfig c =
     (wellFormedProperty (machines c) \<and> wellFormedProperty (products c)
      \<and> wellFormedProperty (papers c))"

text \<open>
  A platform to evaluate examples on: the case mappings restricted to ASCII letters,
  the text V8 gives for the members of \<open>Object.prototype\<close>, and U+2019, the grouping
  separator of \<open>de-CH\<close> in current CLDR data.
\<close>

definition asciiLower :: "code_unit \<Rightarrow> code_unit" where
  "asciiLower c = (if isUpper c then c + 0x20 else c)"

definition samplePlatform :: platform where
  "samplePlatform =
     \<lparr>toLowerCase = map asciiLower, toUpperCase = map asciiUpper,
      inheritedToString =
        (\<lambda>k. if k = js ''__proto__'' then js ''[object Object]''
             else js ''function '' @ (if k = js ''constructor'' then js ''Object'' else k)
                  @ js ''() { [native code] }''),
      groupingSeparator = 0x2019\<rparr>"

text \<open>The same platform with the apostrophe of \<open>NUMBER_SEPARATOR\<close> as separator.\<close>

definition apostrophePlatform :: platform where
  "apostrophePlatform = samplePlatform\<lparr>groupingSeparator := NUMBER_SEPARATOR\<rparr>"

section \<open>Properties of the product code generator\<close>

lemma findByCode_found: "findByCode ms v = Inr (Some m) \<Longrightarrow> elementCode m = Inr v"
proof (induction ms)
  case Nil
  then show ?case by simp
next
  case (Cons a ms)
  then show ?case
    by (cases "elementCode a") (auto simp: bindE_def split: if_splits)
qed

lemma findByCode_total:
  "list_all (\<lambda>m. m \<noteq> NullElement) ms \<Longrightarrow> \<exists>r. findByCode ms v = Inr r"
proof (induction ms)
  case Nil
  then show ?case by simp
next
  case (Cons a ms)
  then show ?case
    by (cases a) (auto simp: bindE_def)
qed

text \<open>A lookup that returns, returns the value it was given.\<close>

lemma lookupCode_result: "lookupCode p v = Inr r \<Longrightarrow> r = v"
proof (cases p)
  case Absent
  assume "lookupCode p v = Inr r"
  with Absent show ?thesis by (simp add: lookupCode_def)
next
  case NotArray
  assume "lookupCode p v = Inr r"
  with NotArray show ?thesis by (simp add: lookupCode_def)
next
  case (ArrayOf ms)
  assume r: "lookupCode p v = Inr r"
  show ?thesis
  proof (cases "findByCode ms v")
    case (Inl e)
    with r ArrayOf show ?thesis by (simp add: lookupCode_def bindE_def)
  next
    case (Inr found)
    show ?thesis
    proof (cases found)
      case None
      with r ArrayOf Inr show ?thesis by (simp add: lookupCode_def bindE_def)
    next
      case (Some m)
      with Inr have "elementCode m = Inr v"
        using findByCode_found by simp
      with r ArrayOf Inr Some show ?thesis
        by (simp add: lookupCode_def bindE_def split: if_splits)
    qed
  qed
qed

lemma lookupCode_wellFormed:
  assumes "wellFormedProperty p"
  shows "lookupCode p v = Inr v"
proof -
  have "\<exists>r. lookupCode p v = Inr r"
  proof (cases p)
    case Absent
    then show ?thesis by (simp add: lookupCode_def)
  next
    case NotArray
    with assms show ?thesis by (simp add: wellFormedProperty_def)
  next
    case (ArrayOf ms)
    with assms obtain found where "findByCode ms v = Inr found"
      using findByCode_total [of ms v] by (auto simp: wellFormedProperty_def)
    with ArrayOf show ?thesis
      by (cases found) (auto simp: lookupCode_def bindE_def dest: findByCode_found)
  qed
  then show ?thesis
    using lookupCode_result by blast
qed

lemma validateInput_workedExample: "validateInput workedExample"
  by (simp add: validateInput_def requiredFields_def workedExample_def fieldPresent_def
      trim_def isWhiteSpace_def)

lemma buildAuflageTeil_workedExample: "buildAuflageTeil workedExample = Inr (js ''1200'')"
  by code_simp

lemma wellFormed_exampleConfig: "wellFormedConfig exampleConfig"
  by (simp add: wellFormedConfig_def wellFormedProperty_def exampleConfig_def)

lemma buildCodeParts_workedExample:
  assumes "wellFormedConfig cfg"
  shows "buildCodeParts P workedExample (Some cfg) =
     Inr \<lparr>auftragsTeil = js ''A12345-1'', kundenTeil = js ''TestKunde-BRFPP'',
          maschineTeil = js ''CX75_u_s_NoSat170'', auflageTeil = js ''1200'',
          papierTeil = js ''D-NoSat170''\<rparr>"
  unfolding buildCodeParts_def buildAuflageTeil_workedExample
  using assms
  by (simp add: bindE_def buildAuftragsTeil_def buildKundenTeil_def buildMaschineTeil_def
      buildPapierTeil_def getMachineCode_def getProductCode_def getPaperCode_def
      wellFormedConfig_def lookupCode_wellFormed workedExample_def sanitizeText_def trim_def
      isWhiteSpace_def isAllowedChar_def getPaperTypeCode_def startsWith_def)

text \<open>
  C1. For the form data of the worked example and every well-formed config object (so
  for every config whose lists hold entries with the codes CX75, BRFPP and NoSat170 and
  nothing that is \<open>null\<close>), \<open>generate\<close> returns
  \<open>A12345-1#TestKunde-BRFPP#CX75_u_s_NoSat170#1200#D-NoSat170#\<close>.
\<close>

theorem generate_worked_example:
  assumes "wellFormedConfig cfg"
  shows "generate P workedExample (Some cfg) =
     js ''A12345-1#TestKunde-BRFPP#CX75_u_s_NoSat170#1200#D-NoSat170#''"
  by (simp add: generate_def generateTry_def validateInput_workedExample
      buildCodeParts_workedExample [OF assms] bindE_def assembleCode_def)

theorem generate_worked_example_witness:
  "wellFormedConfig exampleConfig
   \<and> generate samplePlatform workedExample (Some exampleConfig) =
       js ''A12345-1#TestKunde-BRFPP#CX75_u_s_NoSat170#1200#D-NoSat170#''"
  using wellFormed_exampleConfig
    generate_worked_example [OF wellFormed_exampleConfig, of samplePlatform]
  by (intro conjI)

lemma fieldPresent_not_missing:
  "v = JUndefined \<or> v = JNull \<or> (\<exists>s. v = JStr s \<and> trim s = []) \<Longrightarrow> \<not> fieldPresent v"
  by (auto simp: fieldPresent_def)

lemma field_in_requiredFields: "f \<in> set requiredFields"
  by (cases f) (simp_all add: requiredFields_def)

text \<open>
  C2. When one of the eight required fields is absent, \<open>null\<close>, or a string that is
  empty after trimming, \<open>generate\<close> returns the empty string for every config (also no
  config at all), and it does so by the early return: no exception is thrown.
\<close>

theorem generate_missing_field:
  assumes "getField fd f = JUndefined \<or> getField fd f = JNull
           \<or> (\<exists>s. getField fd f = JStr s \<and> trim s = [])"
  shows "generateTry P fd cfg = Inr [] \<and> generate P fd cfg = []"
proof -
  from assms have "\<not> fieldPresent (getField fd f)"
    by (rule fieldPresent_not_missing)
  with field_in_requiredFields [of f] have "\<not> validateInput fd"
    by (auto simp: validateInput_def list_all_iff)
  then show ?thesis
    by (simp add: generateTry_def generate_def)
qed

theorem generate_missing_field_witness:
  "generateTry samplePlatform (workedExample\<lparr>kunde := JStr (js ''  '')\<rparr>) (Some exampleConfig)
     = Inr []
   \<and> generate samplePlatform (workedExample\<lparr>kunde := JStr (js ''  '')\<rparr>) (Some exampleConfig)
     = []"
proof -
  have "getField (workedExample\<lparr>kunde := JStr (js ''  '')\<rparr>) Kunde = JStr (js ''  '')
        \<and> trim (js ''  '') = []"
    by (simp add: trim_def isWhiteSpace_def)
  then show ?thesis
    using generate_missing_field
      [of "workedExample\<lparr>kunde := JStr (js ''  '')\<rparr>" Kunde samplePlatform
          "Some exampleConfig"]
    by blast
qed

lemma replaceSpaceRuns_allowed:
  "list_all isAllowedChar s \<Longrightarrow> list_all isAllowedChar (replaceSpaceRuns s)"
proof (induction s rule: replaceSpaceRuns.induct)
  case 1
  then show ?case by simp
next
  case (2 c cs)
  have hyphen: "isAllowedChar 0x2D"
    by (simp add: isAllowedChar_def)
  have "list_all isAllowedChar (dropWhile isWhiteSpace cs)"
    using 2(3) by (auto simp: list_all_iff dest: set_dropWhileD)
  with 2 hyphen show ?case by simp
qed

lemma sanitized_allowed:
  "list_all isAllowedChar (take 20 (replaceSpaceRuns (filter isAllowedChar s)))"
proof -
  have "list_all isAllowedChar (replaceSpaceRuns (filter isAllowedChar s))"
    by (rule replaceSpaceRuns_allowed) (simp add: list_all_iff)
  then show ?thesis
    by (auto simp: list_all_iff dest: in_set_takeD)
qed

text \<open>
  C8. With all eight required fields non-empty, the customer is a string or a number.
  For a string, \<open>sanitizeText\<close> gives a text of at most 20 code units, all of them in
  the allow list, and \<open>buildKundenTeil\<close> puts it before the hyphen: it does so for
  every config object whose list of products is well formed, and whenever it returns at
  all. For a number \<open>sanitizeText\<close> throws and no code is generated.
\<close>

theorem customer_component_sanitized:
  assumes "validateInput fd"
  shows "(\<exists>s t. kunde fd = JStr s \<and> sanitizeText (kunde fd) = Inr t \<and> length t \<le> 20
            \<and> list_all isAllowedChar t
            \<and> (wellFormedProperty (products c) \<longrightarrow>
                 buildKundenTeil fd (Some c) = Inr (t @ js ''-'' @ render (produkt fd)))
            \<and> (\<forall>r. buildKundenTeil fd (Some c) = Inr r \<longrightarrow>
                 r = t @ js ''-'' @ render (produkt fd)))
         \<or> (\<exists>n. kunde fd = JNum n \<and> sanitizeText (kunde fd) = Inl TypeError
              \<and> generate P fd cfg = [])"
proof -
  from assms have present: "fieldPresent (kunde fd)"
    by (simp add: validateInput_def requiredFields_def)
  show ?thesis
  proof (cases "kunde fd")
    case (JStr s)
    let ?t = "take 20 (replaceSpaceRuns (filter isAllowedChar (trim s)))"
    have san: "sanitizeText (kunde fd) = Inr ?t"
      by (simp add: JStr sanitizeText_def)
    have build: "buildKundenTeil fd (Some c)
                 = bindE (lookupCode (products c) (produkt fd))
                     (\<lambda>p. Inr (?t @ js ''-'' @ render p))"
      by (simp add: buildKundenTeil_def san bindE_def getProductCode_def)
    have wf: "buildKundenTeil fd (Some c) = Inr (?t @ js ''-'' @ render (produkt fd))"
      if "wellFormedProperty (products c)"
      using lookupCode_wellFormed [OF that, of "produkt fd"]
      by (simp add: build bindE_def)
    have res: "r = ?t @ js ''-'' @ render (produkt fd)"
      if "buildKundenTeil fd (Some c) = Inr r" for r
    proof (cases "lookupCode (products c) (produkt fd)")
      case (Inl e)
      with that show ?thesis by (simp add: build bindE_def)
    next
      case (Inr p)
      then have "p = produkt fd"
        by (rule lookupCode_result)
      with that Inr show ?thesis by (simp add: build bindE_def)
    qed
    have "length ?t \<le> 20" by simp
    moreover have "list_all isAllowedChar ?t"
      by (rule sanitized_allowed)
    ultimately show ?thesis
      using JStr san wf res by blast
  next
    case (JNum n)
    have "buildKundenTeil fd cfg = Inl TypeError"
      by (simp add: buildKundenTeil_def JNum sanitizeText_def bindE_def)
    then have "\<exists>e. buildCodeParts P fd cfg = Inl e"
      by (auto simp: buildCodeParts_def bindE_def split: sum.splits)
    then have "generate P fd cfg = []"
      using assms by (auto simp: generate_def generateTry_def bindE_def)
    with JNum show ?thesis
      by (simp add: sanitizeText_def)
  next
    case JUndefined
    with present show ?thesis by (simp add: fieldPresent_def)
  next
    case JNull
    with present show ?thesis by (simp add: fieldPresent_def)
  qed
qed

theorem customer_component_sanitized_witness:
  "validateInput workedExample \<and> wellFormedProperty (products exampleConfig)
   \<and> (\<exists>s t. kunde workedExample = JStr s \<and> sanitizeText (kunde workedExample) = Inr t
          \<and> length t \<le> 20 \<and> list_all isAllowedChar t
          \<and> buildKundenTeil workedExample (Some exampleConfig)
              = Inr (t @ js ''-'' @ render (produkt workedExample)))"
proof -
  have wf: "wellFormedProperty (products exampleConfig)"
    using wellFormed_exampleConfig by (simp add: wellFormedConfig_def)
  have "\<not> (\<exists>n. kunde workedExample = JNum n)"
    by (simp add: workedExample_def)
  with wf validateInput_workedExample show ?thesis
    using customer_component_sanitized [OF validateInput_workedExample, of exampleConfig
      samplePlatform "Some exampleConfig"]
    by blast
qed

text \<open>
  C10, as the code has it. Where the list of the config is absent or an array with no
  element that is \<open>null\<close> or \<open>undefined\<close> (an empty array is one),
  \<open>getMachineCode\<close>, \<open>getProductCode\<close> and \<open>getPaperCode\<close> return the value
  unchanged and throw nothing; and whenever one of them returns, it returns the value
  unchanged.
\<close>

theorem lookup_is_identity:
  "(wellFormedProperty (machines c) \<longrightarrow> getMachineCode v (Some c) = Inr v)
   \<and> (wellFormedProperty (products c) \<longrightarrow> getProductCode v (Some c) = Inr v)
   \<and> (wellFormedProperty (papers c) \<longrightarrow> getPaperCode v (Some c) = Inr v)
   \<and> (getMachineCode v (Some c) = Inr r1 \<longrightarrow> r1 = v)
   \<and> (getProductCode v (Some c) = Inr r2 \<longrightarrow> r2 = v)
   \<and> (getPaperCode v (Some c) = Inr r3 \<longrightarrow> r3 = v)"
  by (auto simp: getMachineCode_def getProductCode_def getPaperCode_def
      lookupCode_wellFormed dest: lookupCode_result)

theorem lookup_is_identity_witness:
  "wellFormedProperty (machines exampleConfig)
   \<and> wellFormedProperty (products exampleConfig)
   \<and> wellFormedProperty (papers exampleConfig)
   \<and> getMachineCode (JStr (js ''CX75'')) (Some exampleConfig) = Inr (JStr (js ''CX75''))
   \<and> getProductCode (JStr (js ''CX75'')) (Some exampleConfig) = Inr (JStr (js ''CX75''))
   \<and> getPaperCode (JStr (js ''CX75'')) (Some exampleConfig) = Inr (JStr (js ''CX75''))"
proof -
  have wf: "wellFormedProperty (machines exampleConfig)"
    "wellFormedProperty (products exampleConfig)"
    "wellFormedProperty (papers exampleConfig)"
    using wellFormed_exampleConfig by (simp_all add: wellFormedConfig_def)
  then show ?thesis
    using lookup_is_identity [of exampleConfig "JStr (js ''CX75'')"]
    by blast
qed

text \<open>
  C10 as it is written fails on a config whose list of machines holds \<open>null\<close>, and on
  one where \<open>machines\<close> is not an array: the lookup throws a TypeError.
\<close>

theorem lookup_is_identity_counterexample:
  "getMachineCode (JStr (js ''CX75'')) (Some nullEntryConfig) = Inl TypeError
   \<and> getMachineCode (JStr (js ''CX75'')) (Some notArrayConfig) = Inl TypeError"
  by (simp add: getMachineCode_def lookupCode_def nullEntryConfig_def notArrayConfig_def
      bindE_def)

lemma getPaperTypeCode_known:
  "getPaperTypeCode P (JStr (js ''gestrichen'')) = Inr (Code (js ''g_s''))"
  "getPaperTypeCode P (JStr (js ''ungestrichen'')) = Inr (Code (js ''u_s''))"
  by (simp_all add: getPaperTypeCode_def)

lemma getPaperTypeCode_custom:
  assumes "s \<noteq> js ''gestrichen''" "s \<noteq> js ''ungestrichen''" "s \<notin> set objectPrototypeKeys"
  shows "getPaperTypeCode P (JStr s) = Inr (Code (toLowerCase P (charAt0 s) @ js ''_s''))"
  using assms by (simp add: getPaperTypeCode_def)

lemma getPaperTypeCode_string: "\<exists>r. getPaperTypeCode P (JStr s) = Inr r"
  by (simp add: getPaperTypeCode_def)

text \<open>
  C9. The string \<open>constructor\<close> is not empty and is neither of the two known
  categories, yet \<open>getPaperTypeCode\<close> does not return the lower-cased first character
  and \<open>_s\<close> for it: \<open>typeMap['constructor']\<close> is the function that every object
  literal inherits, and the \<open>||\<close> returns that function.
\<close>

theorem getPaperTypeCode_constructor:
  "getPaperTypeCode P (JStr (js ''constructor'')) = Inr (Inherited (js ''constructor''))
   \<and> getPaperTypeCode P (JStr (js ''constructor''))
       \<noteq> Inr (Code (toLowerCase P (charAt0 (js ''constructor'')) @ js ''_s''))"
  by (simp add: getPaperTypeCode_def objectPrototypeKeys_def)

section \<open>Properties of the Swiss number format\<close>

lemma unat_digitChar: "d < 10 \<Longrightarrow> unat (digitChar d) = 48 + d"
  unfolding digitChar_def
  by (simp only: unat_of_nat) simp

lemma isDigit_digitChar: "d < 10 \<Longrightarrow> isDigit (digitChar d)"
  unfolding isDigit_def
  by (simp add: word_le_nat_alt unat_digitChar)

lemma digitVal_digitChar: "d < 10 \<Longrightarrow> digitVal (digitChar d) = d"
  unfolding digitVal_def
  by (simp add: unat_digitChar)

lemma digits_all_digit: "list_all isDigit (digits n)"
proof (induction n rule: digits.induct)
  case (1 n)
  show ?case
  proof (cases "n < 10")
    case True
    then show ?thesis
      by (subst digits.simps) (simp add: isDigit_digitChar)
  next
    case False
    with 1 show ?thesis
      by (subst digits.simps) (simp add: isDigit_digitChar)
  qed
qed

lemma digits_nonempty: "digits n \<noteq> []"
  by (subst digits.simps) simp

lemma digitsValue_snoc: "digitsValue (ds @ [c]) = digitsValue ds * 10 + digitVal c"
  by (simp add: digitsValue_def)

lemma digitsValue_digits: "digitsValue (digits n) = n"
proof (induction n rule: digits.induct)
  case (1 n)
  show ?case
  proof (cases "n < 10")
    case True
    then show ?thesis
      by (subst digits.simps) (simp add: digitsValue_def digitVal_digitChar)
  next
    case False
    with 1 have "digitsValue (digits (n div 10)) = n div 10"
      by simp
    with False show ?thesis
      by (subst digits.simps) (simp add: digitsValue_snoc digitVal_digitChar)
  qed
qed

lemma isDigit_not_ws: "isDigit c \<Longrightarrow> \<not> isWhiteSpace c"
  unfolding isDigit_def isWhiteSpace_def
  by (auto simp: word_le_nat_alt)

lemma isDigit_not_punct:
  "isDigit c \<Longrightarrow> c \<noteq> 0x2D \<and> c \<noteq> 0x2B \<and> c \<noteq> 0x27 \<and> c \<noteq> 0x23"
  unfolding isDigit_def by auto

lemma parseDigits_all:
  "ds \<noteq> [] \<Longrightarrow> list_all isDigit ds \<Longrightarrow> parseDigits ds = Some (digitsValue ds)"
  by (simp add: parseDigits_def Let_def takeWhile_eq_all_conv [THEN iffD2] list_all_iff)

lemma parseInt_all_digits:
  assumes "ds \<noteq> []" "list_all isDigit ds"
  shows "parseInt ds = Some (int (digitsValue ds))"
proof -
  from assms obtain c r where ds: "ds = c # r" and c: "isDigit c"
    by (cases ds) auto
  from c have "dropWhile isWhiteSpace ds = ds"
    by (simp add: ds isDigit_not_ws)
  with c show ?thesis
    using parseDigits_all [OF assms]
    by (simp add: parseInt_def ds isDigit_not_punct)
qed

lemma parseInt_digits: "parseInt (digits n) = Some (int n)"
  using parseInt_all_digits [OF digits_nonempty digits_all_digit, of n]
  by (simp add: digitsValue_digits)

lemma filter_groupRev:
  "\<not> keep sep \<Longrightarrow> list_all keep ds \<Longrightarrow> filter keep (groupRev sep ds) = ds"
  by (induction sep ds rule: groupRev.induct) (auto simp: list_all_iff)

lemma filter_formatSwissNumber:
  assumes "\<not> keep (groupingSeparator P)" "\<And>c. isDigit c \<Longrightarrow> keep c"
  shows "filter keep (formatSwissNumber P n) = digits n"
proof -
  have "list_all keep (rev (digits n))"
    using digits_all_digit [of n] assms(2) by (auto simp: list_all_iff)
  then have "filter keep (groupRev (groupingSeparator P) (rev (digits n))) = rev (digits n)"
    using assms(1) by (rule filter_groupRev [rotated])
  then show ?thesis
    by (simp add: formatSwissNumber_def rev_filter [symmetric])
qed

text \<open>
  Where the platform groups with the ASCII apostrophe or with a white-space unit, the
  units that \<open>parseSwissNumber\<close> strips, parsing undoes formatting.
\<close>

lemma parseSwissNumber_formatSwissNumber_stripped:
  assumes "groupingSeparator P = 0x27 \<or> isWhiteSpace (groupingSeparator P)"
  shows "parseSwissNumber (formatSwissNumber P n) = Some (int n)"
proof -
  have "filter (\<lambda>c. \<not> (c = 0x27 \<or> c = 0x27 \<or> isWhiteSpace c)) (formatSwissNumber P n)
        = digits n"
    using assms by (intro filter_formatSwissNumber) (auto simp: isDigit_not_ws isDigit_not_punct)
  then show ?thesis
    by (simp add: parseSwissNumber_def parseInt_digits)
qed

lemma digits_1200: "digits 1200 = js ''1200''"
  by code_simp

text \<open>
  C4. With U+2019 as the grouping separator, which \<open>parseSwissNumber\<close> does not strip,
  1200 is formatted as 1, U+2019, 200, and parsing that text stops at the separator: the
  result is 1, not 1200.
\<close>

theorem parseSwissNumber_formatSwissNumber_1200:
  "formatSwissNumber (P\<lparr>groupingSeparator := 0x2019\<rparr>) 1200 = js ''1'' @ [0x2019] @ js ''200''
   \<and> parseSwissNumber (formatSwissNumber (P\<lparr>groupingSeparator := 0x2019\<rparr>) 1200) = Some 1"
  by (simp add: parseSwissNumber_def formatSwissNumber_def digits_1200 isWhiteSpace_def
      parseInt_def parseDigits_def isDigit_def digitsValue_def digitVal_def)

section \<open>The quantity in the generated code\<close>

lemma splitAcc_append:
  "sep \<notin> set x \<Longrightarrow> splitAcc sep acc (x @ sep # rest) = (rev acc @ x) # splitAcc sep [] rest"
  by (induction x arbitrary: acc) auto

lemma segment_fourth:
  assumes "0x23 \<notin> set p1" "0x23 \<notin> set p2" "0x23 \<notin> set p3" "0x23 \<notin> set d"
  shows "segment 3 (p1 @ 0x23 # p2 @ 0x23 # p3 @ 0x23 # d @ 0x23 # rest) = Some d"
proof -
  have "split 0x23 (p1 @ 0x23 # p2 @ 0x23 # p3 @ 0x23 # d @ 0x23 # rest)
        = p1 # p2 # p3 # d # splitAcc 0x23 [] rest"
    using assms by (simp add: split_def splitAcc_append)
  then show ?thesis
    by (simp add: segment_def)
qed

lemma digits_no_hash: "0x23 \<notin> set (digits n)"
  using digits_all_digit [of n] isDigit_not_punct by (auto simp: list_all_iff)

lemma buildAuflageTeil_formatted:
  assumes "auflage fd = JStr (formatSwissNumber P n)"
    and "groupingSeparator P = NUMBER_SEPARATOR \<or> isWhiteSpace (groupingSeparator P)"
  shows "buildAuflageTeil fd = Inr (digits n)"
proof -
  have "removeWhiteSpace (removeApostrophes (formatSwissNumber P n))
        = filter (\<lambda>c. c \<noteq> 0x27 \<and> \<not> isWhiteSpace c) (formatSwissNumber P n)"
    by (simp add: removeWhiteSpace_def removeApostrophes_def conj_commute)
  also have "\<dots> = digits n"
    using assms(2)
    by (intro filter_formatSwissNumber)
       (auto simp: NUMBER_SEPARATOR_def isDigit_not_ws isDigit_not_punct)
  finally show ?thesis
    by (simp add: buildAuflageTeil_def assms(1) bindE_def parseInt_digits numToString_def)
qed

lemma fieldPresent_toString: "fieldPresent v \<Longrightarrow> \<exists>s. toString v = Inr s"
  by (cases v) (simp_all add: fieldPresent_def)

text \<open>
  Where the quantity is a non-negative integer below \<open>2 ^ 53\<close> written with the
  ASCII apostrophe (or a white-space unit) between its groups of three digits, the
  fourth part of the generated code is the plain digit string of that integer. This is
  for non-empty fields with strings for order number, customer and paper type, and a
  well-formed config. The part is the fourth \<open>#\<close>-separated segment of the result
  when the three parts before it contain no \<open>#\<close>.
\<close>

lemma generate_auflage_apostrophe:
  assumes "validateInput fd" and "wellFormedConfig c"
    and "auftragsnummer fd = JStr a" and "kunde fd = JStr k" and "papierart fd = JStr pa"
    and "auflage fd = JStr (formatSwissNumber P n)"
    and "groupingSeparator P = NUMBER_SEPARATOR \<or> isWhiteSpace (groupingSeparator P)"
    and "n < 2 ^ 53"
  shows "\<exists>p1 p2 p3 p5.
           buildCodeParts P fd (Some c)
             = Inr \<lparr>auftragsTeil = p1, kundenTeil = p2, maschineTeil = p3,
                    auflageTeil = digits n, papierTeil = p5\<rparr>
           \<and> generate P fd (Some c)
               = p1 @ js ''#'' @ p2 @ js ''#'' @ p3 @ js ''#'' @ digits n @ js ''#'' @ p5
                 @ js ''#''
           \<and> (0x23 \<notin> set p1 \<and> 0x23 \<notin> set p2 \<and> 0x23 \<notin> set p3 \<longrightarrow>
                segment 3 (generate P fd (Some c)) = Some (digits n))"
proof -
  from assms(2) have wf: "\<And>v. lookupCode (machines c) v = Inr v"
    "\<And>v. lookupCode (products c) v = Inr v" "\<And>v. lookupCode (papers c) v = Inr v"
    by (simp_all add: wellFormedConfig_def lookupCode_wellFormed)
  from assms(1) have "fieldPresent (auftragsposition fd)"
    by (simp add: validateInput_def requiredFields_def)
  then obtain pos where pos: "toString (auftragsposition fd) = Inr pos"
    using fieldPresent_toString by blast
  obtain p1 where p1: "buildAuftragsTeil fd = Inr p1"
    by (simp add: buildAuftragsTeil_def assms(3) pos bindE_def Let_def)
  obtain p2 where p2: "buildKundenTeil fd (Some c) = Inr p2"
    by (simp add: buildKundenTeil_def assms(4) sanitizeText_def getProductCode_def wf
        bindE_def)
  obtain tag where tag: "getPaperTypeCode P (papierart fd) = Inr tag"
    using getPaperTypeCode_string [of P pa] by (auto simp: assms(5))
  obtain p3 where p3: "buildMaschineTeil P fd (Some c) = Inr p3"
    by (simp add: buildMaschineTeil_def getMachineCode_def getPaperCode_def wf tag bindE_def)
  have p4: "buildAuflageTeil fd = Inr (digits n)"
    using assms(6,7) by (rule buildAuflageTeil_formatted)
  obtain p5 where p5: "buildPapierTeil fd (Some c) = Inr p5"
    by (simp add: buildPapierTeil_def getPaperCode_def wf bindE_def)
  have parts: "buildCodeParts P fd (Some c)
                 = Inr \<lparr>auftragsTeil = p1, kundenTeil = p2, maschineTeil = p3,
                        auflageTeil = digits n, papierTeil = p5\<rparr>"
    by (simp add: buildCodeParts_def p1 p2 p3 p4 p5 bindE_def)
  have gen: "generate P fd (Some c)
               = p1 @ js ''#'' @ p2 @ js ''#'' @ p3 @ js ''#'' @ digits n @ js ''#'' @ p5
                 @ js ''#''"
    by (simp add: generate_def generateTry_def assms(1) parts bindE_def assembleCode_def)
  have "segment 3 (generate P fd (Some c)) = Some (digits n)"
    if "0x23 \<notin> set p1 \<and> 0x23 \<notin> set p2 \<and> 0x23 \<notin> set p3"
    using that segment_fourth [of p1 p2 p3 "digits n" "p5 @ [0x23]"] digits_no_hash [of n]
    by (simp add: gen)
  with parts gen show ?thesis
    by blast
qed

lemma lookups_exampleConfig:
  "lookupCode (machines exampleConfig) v = Inr v"
  "lookupCode (products exampleConfig) v = Inr v"
  "lookupCode (papers exampleConfig) v = Inr v"
  using wellFormed_exampleConfig
  by (simp_all add: wellFormedConfig_def lookupCode_wellFormed)

text \<open>
  \<open>generate\<close> does not escape \<open>#\<close>: with the product \<open>BR#PP\<close> the fourth segment
  of the result is the machine part.
\<close>

lemma generate_hash_in_product:
  "generate apostrophePlatform hashExample (Some exampleConfig)
     = js ''A12345-1#TestKunde-BR#PP#CX75_u_s_NoSat170#1200#D-NoSat170#''
   \<and> segment 3 (js ''A12345-1#TestKunde-BR#PP#CX75_u_s_NoSat170#1200#D-NoSat170#'')
       = Some (js ''CX75_u_s_NoSat170'')"
proof -
  have v: "validateInput hashExample"
    by (simp add: validateInput_def requiredFields_def hashExample_def workedExample_def
        fieldPresent_def trim_def isWhiteSpace_def)
  have a: "buildAuflageTeil hashExample = Inr (js ''1200'')"
    using buildAuflageTeil_workedExample by (simp add: buildAuflageTeil_def hashExample_def)
  have parts:
    "buildCodeParts apostrophePlatform hashExample (Some exampleConfig)
     = Inr \<lparr>auftragsTeil = js ''A12345-1'', kundenTeil = js ''TestKunde-BR#PP'',
            maschineTeil = js ''CX75_u_s_NoSat170'', auflageTeil = js ''1200'',
            papierTeil = js ''D-NoSat170''\<rparr>"
    unfolding buildCodeParts_def a
    by (simp add: bindE_def buildAuftragsTeil_def buildKundenTeil_def buildMaschineTeil_def
        buildPapierTeil_def getMachineCode_def getProductCode_def getPaperCode_def
        lookups_exampleConfig hashExample_def workedExample_def sanitizeText_def trim_def
        isWhiteSpace_def isAllowedChar_def getPaperTypeCode_def startsWith_def)
  have g: "generate apostrophePlatform hashExample (Some exampleConfig)
           = js ''A12345-1#TestKunde-BR#PP#CX75_u_s_NoSat170#1200#D-NoSat170#''"
    by (simp add: generate_def generateTry_def v parts bindE_def assembleCode_def)
  have s: "segment 3 (js ''A12345-1#TestKunde-BR#PP#CX75_u_s_NoSat170#1200#D-NoSat170#'')
           = Some (js ''CX75_u_s_NoSat170'')"
    by (simp add: segment_def split_def)
  from g s show ?thesis
    by (intro conjI)
qed

lemma formatSwissNumber_1200_typographic:
  "formatSwissNumber samplePlatform 1200 = js ''1'' @ [0x2019] @ js ''200''"
  by (simp add: formatSwissNumber_def digits_1200 samplePlatform_def)

text \<open>
  C3. Where \<open>de-CH\<close> groups with U+2019, the quantity 1200 reaches the form as 1,
  U+2019, 200. All eight fields are non-empty and no part holds a \<open>#\<close>, yet
  \<open>buildAuflageTeil\<close>, which removes the ASCII apostrophe and white space only, stops
  parsing at the separator: the fourth segment of the generated code is \<open>1\<close>, not the
  digit string \<open>1200\<close>.
\<close>

theorem generate_typographic_separator:
  "validateInput typographicExample
   \<and> auflage typographicExample = JStr (formatSwissNumber samplePlatform 1200)
   \<and> buildAuflageTeil typographicExample = Inr (js ''1'')
   \<and> generate samplePlatform typographicExample (Some exampleConfig)
       = js ''A12345-1#TestKunde-BRFPP#CX75_u_s_NoSat170#1#D-NoSat170#''
   \<and> segment 3 (generate samplePlatform typographicExample (Some exampleConfig))
       = Some (js ''1'')
   \<and> js ''1'' \<noteq> digits 1200"
proof -
  have v: "validateInput typographicExample"
    by (simp add: validateInput_def requiredFields_def typographicExample_def
        workedExample_def fieldPresent_def trim_def isWhiteSpace_def)
  have f: "auflage typographicExample = JStr (formatSwissNumber samplePlatform 1200)"
    by (simp add: formatSwissNumber_1200_typographic) (simp add: typographicExample_def)
  have a: "buildAuflageTeil typographicExample = Inr (js ''1'')"
    by (simp add: buildAuflageTeil_def typographicExample_def bindE_def
        removeApostrophes_def removeWhiteSpace_def isWhiteSpace_def parseInt_def
        parseDigits_def isDigit_def digitsValue_def digitVal_def numToString_def
        digits.simps digitChar_def)
  have parts:
    "buildCodeParts samplePlatform typographicExample (Some exampleConfig)
     = Inr \<lparr>auftragsTeil = js ''A12345-1'', kundenTeil = js ''TestKunde-BRFPP'',
            maschineTeil = js ''CX75_u_s_NoSat170'', auflageTeil = js ''1'',
            papierTeil = js ''D-NoSat170''\<rparr>"
    unfolding buildCodeParts_def a
    by (simp add: bindE_def buildAuftragsTeil_def buildKundenTeil_def buildMaschineTeil_def
        buildPapierTeil_def getMachineCode_def getProductCode_def getPaperCode_def
        lookups_exampleConfig typographicExample_def workedExample_def sanitizeText_def
        trim_def isWhiteSpace_def isAllowedChar_def getPaperTypeCode_def startsWith_def)
  have g: "generate samplePlatform typographicExample (Some exampleConfig)
           = js ''A12345-1#TestKunde-BRFPP#CX75_u_s_NoSat170#1#D-NoSat170#''"
    by (simp add: generate_def generateTry_def v parts bindE_def assembleCode_def)
  have s: "segment 3 (js ''A12345-1#TestKunde-BRFPP#CX75_u_s_NoSat170#1#D-NoSat170#'')
           = Some (js ''1'')"
    by (simp add: segment_def split_def)
  then have s': "segment 3 (generate samplePlatform typographicExample (Some exampleConfig))
                 = Some (js ''1'')"
    by (simp only: g)
  have d: "js ''1'' \<noteq> digits 1200"
    by (simp add: digits_1200)
  from v f a g s' d show ?thesis
    by (intro conjI)
qed

section \<open>Properties of the validator\<close>

text \<open>
  C7. A file of size 0 is rejected with code \<open>EMPTY_FILE\<close>, and a file of a size
  above 0 and up to the ceiling of 100 MB whose MIME type is not \<open>application/pdf\<close>
  is rejected with code \<open>INVALID_FILE_TYPE\<close>.
\<close>

theorem validateFile_rejects:
  "(fileSize f = 0 \<longrightarrow>
      validateFile P (Some f) = failure (js ''Datei ist leer'') (js ''EMPTY_FILE'')
      \<and> \<not> valid (validateFile P (Some f))
      \<and> resultCode (validateFile P (Some f)) = Some (js ''EMPTY_FILE''))
   \<and> (0 < fileSize f \<and> fileSize f \<le> maxSize \<and> fileType f \<noteq> js ''application/pdf'' \<longrightarrow>
      validateFile P (Some f)
        = failure (js ''Nur PDF-Dateien sind erlaubt'') (js ''INVALID_FILE_TYPE'')
      \<and> \<not> valid (validateFile P (Some f))
      \<and> resultCode (validateFile P (Some f)) = Some (js ''INVALID_FILE_TYPE''))"
  by (simp add: validateFile_def maxSize_def failure_def emptyResult_def)

theorem validateFile_rejects_witness:
  "(fileSize \<lparr>fileName = js ''a.pdf'', fileSize = 0, fileType = js ''application/pdf''\<rparr> = 0
    \<and> resultCode
        (validateFile samplePlatform
           (Some \<lparr>fileName = js ''a.pdf'', fileSize = 0, fileType = js ''application/pdf''\<rparr>))
      = Some (js ''EMPTY_FILE''))
   \<and> (0 < fileSize \<lparr>fileName = js ''a.txt'', fileSize = 12, fileType = js ''text/plain''\<rparr>
      \<and> fileSize \<lparr>fileName = js ''a.txt'', fileSize = 12, fileType = js ''text/plain''\<rparr>
          \<le> maxSize
      \<and> fileType \<lparr>fileName = js ''a.txt'', fileSize = 12, fileType = js ''text/plain''\<rparr>
          \<noteq> js ''application/pdf''
      \<and> resultCode
          (validateFile samplePlatform
             (Some \<lparr>fileName = js ''a.txt'', fileSize = 12, fileType = js ''text/plain''\<rparr>))
        = Some (js ''INVALID_FILE_TYPE''))"
proof -
  have h1: "fileSize \<lparr>fileName = js ''a.pdf'', fileSize = 0, fileType = js ''application/pdf''\<rparr>
            = 0"
    by simp
  have h2: "0 < fileSize \<lparr>fileName = js ''a.txt'', fileSize = 12, fileType = js ''text/plain''\<rparr>
            \<and> fileSize \<lparr>fileName = js ''a.txt'', fileSize = 12, fileType = js ''text/plain''\<rparr>
                \<le> maxSize
            \<and> fileType \<lparr>fileName = js ''a.txt'', fileSize = 12, fileType = js ''text/plain''\<rparr>
                \<noteq> js ''application/pdf''"
    by (simp add: maxSize_def)
  show ?thesis
    using h1 h2
      validateFile_rejects
        [of "\<lparr>fileName = js ''a.pdf'', fileSize = 0, fileType = js ''application/pdf''\<rparr>"
            samplePlatform]
      validateFile_rejects
        [of "\<lparr>fileName = js ''a.txt'', fileSize = 12, fileType = js ''text/plain''\<rparr>"
            samplePlatform]
    by blast
qed

text \<open>
  The numeric checks act on \<open>auftragsposition\<close> only, and there on a string that has
  passed \<open>/^\d+$/\<close>: \<open>parseFloat\<close> never sees anything but digits.
\<close>

lemma numericChecks_other_fields:
  "f \<noteq> Auftragsposition \<Longrightarrow> numericChecks f (getValidationRules f) s = None"
  by (cases f) (simp_all add: numericChecks_def emptyRule_def)

lemma auftragsposition_pattern_digits:
  "pattern (getValidationRules Auftragsposition) = Some (matchesClassPlus isDigit)"
  by (simp add: emptyRule_def positionPattern_def)

lemma required_rules: "required (getValidationRules f)"
  by (cases f) (simp_all add: emptyRule_def)

lemma validateField_empty:
  "isEmpty v \<Longrightarrow>
     validateField P f v
       = Inr (failure (getFieldDisplayName f @ js '' ist erforderlich'') (js ''REQUIRED''))"
  by (simp add: validateField_def Let_def required_rules)

lemma validateField_total: "\<exists>r. validateField P f v = Inr r"
proof (cases "isEmpty v")
  case True
  then show ?thesis
    by (simp add: validateField_empty)
next
  case False
  then obtain sv where "toString v = Inr sv"
    by (cases v) simp_all
  with False show ?thesis
    unfolding validateField_def Let_def bindE_def
    by (simp only: required_rules sum.case if_False if_True simp_thms) blast
qed

lemma validateFields_spec:
  "\<exists>rs. list_all2 (\<lambda>f r. validateField P f (getField fd f) = Inr r) fs rs
        \<and> validateFields P fd fs st
            = Inr \<lparr>results = results st @ zip fs rs,
                   errors =
                     errors st
                     @ map (\<lambda>(f, r). \<lparr>errField = f, errError = resultError r,
                                         errCode = resultCode r\<rparr>)
                         (filter (\<lambda>(f, r). \<not> valid r) (zip fs rs)),
                   allValid = (allValid st \<and> list_all valid rs)\<rparr>"
proof (induction fs arbitrary: st)
  case Nil
  show ?case by simp
next
  case (Cons f fs)
  obtain r where r: "validateField P f (getField fd f) = Inr r"
    using validateField_total by blast
  let ?st = "\<lparr>results = results st @ [(f, r)],
               errors =
                 (if \<not> valid r then
                    errors st @ [\<lparr>errField = f, errError = resultError r,
                                 errCode = resultCode r\<rparr>]
                  else errors st),
               allValid = (if \<not> valid r then False else allValid st)\<rparr>"
  from Cons.IH [of ?st] obtain rs where
    rs: "list_all2 (\<lambda>f r. validateField P f (getField fd f) = Inr r) fs rs"
    and eq: "validateFields P fd fs ?st
             = Inr \<lparr>results = results ?st @ zip fs rs,
                    errors =
                      errors ?st
                      @ map (\<lambda>(f, r). \<lparr>errField = f, errError = resultError r,
                                          errCode = resultCode r\<rparr>)
                          (filter (\<lambda>(f, r). \<not> valid r) (zip fs rs)),
                    allValid = (allValid ?st \<and> list_all valid rs)\<rparr>"
    by blast
  have "list_all2 (\<lambda>f r. validateField P f (getField fd f) = Inr r) (f # fs) (r # rs)"
    using r rs by simp
  moreover have "validateFields P fd (f # fs) st
                 = Inr \<lparr>results = results st @ zip (f # fs) (r # rs),
                        errors =
                          errors st
                          @ map (\<lambda>(f, r). \<lparr>errField = f, errError = resultError r,
                                              errCode = resultCode r\<rparr>)
                              (filter (\<lambda>(f, r). \<not> valid r) (zip (f # fs) (r # rs))),
                        allValid = (allValid st \<and> list_all valid (r # rs))\<rparr>"
    by (simp add: r bindE_def eq)
  ultimately show ?case
    by blast
qed

lemma no_invalid_iff:
  "length fs = length rs \<Longrightarrow>
     (filter (\<lambda>(f, r). \<not> valid r) (zip fs rs) = []) = list_all valid rs"
  by (induction fs rs rule: list_induct2) auto

text \<open>
  C5. \<open>validateForm\<close> throws nothing and calls \<open>validateField\<close> on each of the eight
  fields, in order: \<open>results\<close> holds the eight results. Its \<open>errors\<close> list holds one
  entry, with the field, the error message and the code, for each field whose result is
  not valid, and no other entry; and \<open>valid\<close> is true exactly when \<open>errors\<close> is empty.
\<close>

theorem validateForm_collects_every_error:
  "\<exists>rs res.
     list_all2 (\<lambda>f r. validateField P f (getField fd f) = Inr r) requiredFields rs
     \<and> length requiredFields = 8
     \<and> validateForm P fd = Inr res
     \<and> formResults res = zip requiredFields rs
     \<and> formErrors res
         = map (\<lambda>(f, r). \<lparr>errField = f, errError = resultError r, errCode = resultCode r\<rparr>)
             (filter (\<lambda>(f, r). \<not> valid r) (zip requiredFields rs))
     \<and> formValid res = (formErrors res = [])"
proof -
  let ?st0 = "\<lparr>results = [], errors = [], allValid = True\<rparr>"
  obtain rs where
    rs: "list_all2 (\<lambda>f r. validateField P f (getField fd f) = Inr r) requiredFields rs"
    and eq: "validateFields P fd requiredFields ?st0
             = Inr \<lparr>results = results ?st0 @ zip requiredFields rs,
                    errors =
                      errors ?st0
                      @ map (\<lambda>(f, r). \<lparr>errField = f, errError = resultError r,
                                          errCode = resultCode r\<rparr>)
                          (filter (\<lambda>(f, r). \<not> valid r) (zip requiredFields rs)),
                    allValid = (allValid ?st0 \<and> list_all valid rs)\<rparr>"
    using validateFields_spec [of P fd requiredFields ?st0] by blast
  from rs have len: "length requiredFields = length rs"
    by (rule list_all2_lengthD)
  let ?res = "\<lparr>formValid = list_all valid rs,
                formErrors =
                  map (\<lambda>(f, r). \<lparr>errField = f, errError = resultError r,
                                      errCode = resultCode r\<rparr>)
                    (filter (\<lambda>(f, r). \<not> valid r) (zip requiredFields rs)),
                formResults = zip requiredFields rs,
                formSummary =
                  generateValidationSummary (zip requiredFields rs)
                    (map (\<lambda>(f, r). \<lparr>errField = f, errError = resultError r,
                                        errCode = resultCode r\<rparr>)
                       (filter (\<lambda>(f, r). \<not> valid r) (zip requiredFields rs)))\<rparr>"
  have form: "validateForm P fd = Inr ?res"
    by (simp add: validateForm_def eq bindE_def validateCrossFields_def Let_def)
  have "formValid ?res = (formErrors ?res = [])"
    using no_invalid_iff [OF len] by simp
  moreover have "length requiredFields = 8"
    by (simp add: requiredFields_def)
  ultimately show ?thesis
    using rs form by (intro exI [of _ rs] exI [of _ ?res]) simp
qed

theorem validateForm_collects_every_error_witness:
  "\<exists>rs res.
     list_all2 (\<lambda>f r. validateField samplePlatform f (getField workedExample f) = Inr r)
       requiredFields rs
     \<and> length requiredFields = 8
     \<and> validateForm samplePlatform workedExample = Inr res
     \<and> formResults res = zip requiredFields rs
     \<and> formErrors res
         = map (\<lambda>(f, r). \<lparr>errField = f, errError = resultError r, errCode = resultCode r\<rparr>)
             (filter (\<lambda>(f, r). \<not> valid r) (zip requiredFields rs))
     \<and> formValid res = (formErrors res = [])"
  using validateForm_collects_every_error [of samplePlatform workedExample] .

text \<open>
  C6, as the code has it. The pattern is tested on the trimmed value, after the check
  for an empty value: a string whose trimmed text is not empty and does not match
  \<open>/^A\d+$/\<close> is rejected with the rule's message and code \<open>PATTERN\<close>; a string
  that is empty after trimming is rejected with code \<open>REQUIRED\<close>.
\<close>

theorem auftragsnummer_pattern_rejection:
  "(trim s \<noteq> [] \<and> \<not> auftragPattern (trim s) \<longrightarrow>
      validateField P Auftragsnummer (JStr s)
        = Inr (failure (js ''Auftragsnummer muss mit '' @ [0x22] @ js ''A'' @ [0x22]
                        @ js '' beginnen und Zahlen enthalten (z.B. A12345)'')
                       (js ''PATTERN'')))
   \<and> (trim s = [] \<longrightarrow>
      validateField P Auftragsnummer (JStr s)
        = Inr (failure (js ''Auftragsnummer ist erforderlich'') (js ''REQUIRED'')))"
proof (intro conjI impI)
  assume "trim s \<noteq> [] \<and> \<not> auftragPattern (trim s)"
  then show "validateField P Auftragsnummer (JStr s)
        = Inr (failure (js ''Auftragsnummer muss mit '' @ [0x22] @ js ''A'' @ [0x22]
                        @ js '' beginnen und Zahlen enthalten (z.B. A12345)'')
                       (js ''PATTERN''))"
    by (simp add: validateField_def Let_def bindE_def emptyRule_def)
next
  assume "trim s = []"
  then show "validateField P Auftragsnummer (JStr s)
        = Inr (failure (js ''Auftragsnummer ist erforderlich'') (js ''REQUIRED''))"
    using validateField_empty [of "JStr s" P Auftragsnummer] by simp
qed

theorem auftragsnummer_pattern_rejection_witness:
  "(trim (js ''12345'') \<noteq> [] \<and> \<not> auftragPattern (trim (js ''12345''))
    \<and> validateField samplePlatform Auftragsnummer (JStr (js ''12345''))
        = Inr (failure (js ''Auftragsnummer muss mit '' @ [0x22] @ js ''A'' @ [0x22]
                        @ js '' beginnen und Zahlen enthalten (z.B. A12345)'')
                       (js ''PATTERN'')))
   \<and> (trim (js ''  '') = []
      \<and> validateField samplePlatform Auftragsnummer (JStr (js ''  ''))
          = Inr (failure (js ''Auftragsnummer ist erforderlich'') (js ''REQUIRED'')))"
proof -
  have h1: "trim (js ''12345'') \<noteq> [] \<and> \<not> auftragPattern (trim (js ''12345''))"
    by (simp add: trim_def isWhiteSpace_def auftragPattern_def)
  have h2: "trim (js ''  '') = []"
    by (simp add: trim_def isWhiteSpace_def)
  show ?thesis
    using h1 h2
      auftragsnummer_pattern_rejection [of "js ''12345''" samplePlatform]
      auftragsnummer_pattern_rejection [of "js ''  ''" samplePlatform]
    by blast
qed

text \<open>
  C6 as it is written fails on the empty string, which does not match the
  pattern and is rejected with code \<open>REQUIRED\<close>, and on a string such as \<open>A1\<close>
  between two blanks, which does not match the pattern and is accepted.
\<close>

theorem auftragsnummer_pattern_counterexample:
  "\<not> auftragPattern []
   \<and> validateField samplePlatform Auftragsnummer (JStr [])
       = Inr (failure (js ''Auftragsnummer ist erforderlich'') (js ''REQUIRED''))
   \<and> js ''REQUIRED'' \<noteq> js ''PATTERN''
   \<and> \<not> auftragPattern (js '' A1 '')
   \<and> validateField samplePlatform Auftragsnummer (JStr (js '' A1 ''))
       = Inr ((emptyResult True)\<lparr>resultValue := Some (JStr (js ''A1'')),
                normalizedValue := Some (js ''A1'')\<rparr>)"
proof (intro conjI)
  show "\<not> auftragPattern []"
    by (simp add: auftragPattern_def)
  show "validateField samplePlatform Auftragsnummer (JStr [])
       = Inr (failure (js ''Auftragsnummer ist erforderlich'') (js ''REQUIRED''))"
    using validateField_empty [of "JStr []" samplePlatform Auftragsnummer]
    by (simp add: trim_def)
  show "js ''REQUIRED'' \<noteq> js ''PATTERN''"
    by simp
  show "\<not> auftragPattern (js '' A1 '')"
    by (simp add: auftragPattern_def)
  have t: "trim (js '' A1 '') = js ''A1''"
    by (simp add: trim_def isWhiteSpace_def)
  have p: "auftragPattern (js ''A1'')"
    by (simp add: auftragPattern_def matchesClassPlus_def isDigit_def)
  have a: "validateAuftragsnummer (js ''A1'') = success (JStr (js ''A1''))"
    using p by (simp add: validateAuftragsnummer_def startsWith_def)
  have u: "toUpperCase samplePlatform (js ''A1'') = js ''A1''"
    by (simp add: samplePlatform_def asciiUpper_def isLower_def)
  show "validateField samplePlatform Auftragsnummer (JStr (js '' A1 ''))
       = Inr ((emptyResult True)\<lparr>resultValue := Some (JStr (js ''A1'')),
                normalizedValue := Some (js ''A1'')\<rparr>)"
    unfolding validateField_def Let_def
    using t p a u
    by (simp add: bindE_def emptyRule_def numericChecks_def success_def emptyResult_def)
qed

end
